theory Spec2Isabelle
  imports Main "HOL-Library.Word"
begin

unbundle bit_operations_syntax

section \<open>Python values\<close>

text \<open>
  A Python \<open>str\<close> is a sequence of Unicode code points, so the model keeps a list of
  code point numbers. \<open>str_of\<close> turns an ASCII literal of the theory into such a list.
\<close>

type_synonym ustr = "nat list"

definition str_of :: "string \<Rightarrow> ustr" where
  "str_of s = map of_char s"

text \<open>
  \<open>datetime.date\<close>: year, month, day. \<open>datetime.datetime\<close>: a date, a time of day
  with microseconds and an optional offset from UTC in minutes (\<open>None\<close>: a naive
  datetime, what \<open>datetime.utcnow()\<close> returns). \<open>uuid.UUID\<close>: a 128 bit integer.
\<close>

record date =
  year :: nat
  month :: nat
  day :: nat

record datetime =
  date_part :: date
  hour :: nat
  minute :: nat
  second :: nat
  microsecond :: nat
  utcoffset :: "int option"

type_synonym uuid = "128 word"

type_synonym byte = "8 word"

text \<open>
  The values that reach these schemas, as keyword arguments or as members of a parsed
  JSON object, and the values a validated model holds in its fields. \<open>PBytes\<close> stands
  for \<open>bytes\<close> and \<open>bytearray\<close>, which validation treats alike.
\<close>

datatype pyval =
    PNone
  | PBool bool
  | PInt int
  | PStr ustr
  | PBytes "byte list"
  | PDate date
  | PDatetime datetime
  | PUuid uuid
  | PList "pyval list"

section \<open>The \<open>pattern\<close> constraint\<close>

text \<open>
  The Unicode general category \<open>Nd\<close> (decimal digit) as runs of code points, after
  Unicode 16.0: 760 characters. Over \<open>str\<close> the class \<open>\d\<close> of a pattern is this
  category, in the version of Unicode that the regular expression engine was built
  with; the table is used only where a pattern is evaluated on a sample string.
\<close>

definition Nd_runs :: "(nat \<times> nat) list" where
  "Nd_runs =
    [(0x30, 0x39), (0x660, 0x669), (0x6F0, 0x6F9), (0x7C0, 0x7C9),
     (0x966, 0x96F), (0x9E6, 0x9EF), (0xA66, 0xA6F), (0xAE6, 0xAEF),
     (0xB66, 0xB6F), (0xBE6, 0xBEF), (0xC66, 0xC6F), (0xCE6, 0xCEF),
     (0xD66, 0xD6F), (0xDE6, 0xDEF), (0xE50, 0xE59), (0xED0, 0xED9),
     (0xF20, 0xF29), (0x1040, 0x1049), (0x1090, 0x1099), (0x17E0, 0x17E9),
     (0x1810, 0x1819), (0x1946, 0x194F), (0x19D0, 0x19D9), (0x1A80, 0x1A89),
     (0x1A90, 0x1A99), (0x1B50, 0x1B59), (0x1BB0, 0x1BB9), (0x1C40, 0x1C49),
     (0x1C50, 0x1C59), (0xA620, 0xA629), (0xA8D0, 0xA8D9), (0xA900, 0xA909),
     (0xA9D0, 0xA9D9), (0xA9F0, 0xA9F9), (0xAA50, 0xAA59), (0xABF0, 0xABF9),
     (0xFF10, 0xFF19), (0x104A0, 0x104A9), (0x10D30, 0x10D39), (0x10D40, 0x10D49),
     (0x11066, 0x1106F), (0x110F0, 0x110F9), (0x11136, 0x1113F), (0x111D0, 0x111D9),
     (0x112F0, 0x112F9), (0x11450, 0x11459), (0x114D0, 0x114D9), (0x11650, 0x11659),
     (0x116C0, 0x116C9), (0x116D0, 0x116E3), (0x11730, 0x11739), (0x118E0, 0x118E9),
     (0x11950, 0x11959), (0x11BF0, 0x11BF9), (0x11C50, 0x11C59), (0x11D50, 0x11D59),
     (0x11DA0, 0x11DA9), (0x11F50, 0x11F59), (0x16130, 0x16139), (0x16A60, 0x16A69),
     (0x16AC0, 0x16AC9), (0x16B50, 0x16B59), (0x16D70, 0x16D79), (0x1CCF0, 0x1CCF9),
     (0x1D7CE, 0x1D7FF), (0x1E140, 0x1E149), (0x1E2F0, 0x1E2F9), (0x1E4F0, 0x1E4F9),
     (0x1E5F1, 0x1E5FA), (0x1E950, 0x1E959), (0x1FBF0, 0x1FBF9)]"

definition unicode_Nd :: "nat \<Rightarrow> bool" where
  "unicode_Nd c = list_ex (\<lambda>(lo, hi). lo \<le> c \<and> c \<le> hi) Nd_runs"

text \<open>
  The fragment of regular expressions the patterns of this repository use: the anchors
  \<open>^\<close> and \<open>$\<close>, and a character class (\<open>[lo-hi]\<close> or \<open>\d\<close>) under a bounded
  repetition \<open>{m,n}\<close>.
\<close>

datatype char_class = Range nat nat | Digit

datatype rx = Bol | Eol | Rep char_class nat nat

text \<open>
  The matcher takes the engine's table of decimal digits, \<open>dg\<close>, as an argument.
\<close>

fun in_class :: "(nat \<Rightarrow> bool) \<Rightarrow> char_class \<Rightarrow> nat \<Rightarrow> bool" where
  "in_class dg (Range lo hi) c = (lo \<le> c \<and> c \<le> hi)"
| "in_class dg Digit c = dg c"

text \<open>
  \<open>match_at dg p s i\<close>: the pattern \<open>p\<close> matches in \<open>s\<close> starting at position \<open>i\<close>.
  No flag is set, so \<open>^\<close> holds at position 0 only and \<open>$\<close> at the end of \<open>s\<close> only.
  The constraint is a search (\<open>is_match\<close>): a match may start anywhere.
\<close>

fun match_at :: "(nat \<Rightarrow> bool) \<Rightarrow> rx list \<Rightarrow> ustr \<Rightarrow> nat \<Rightarrow> bool" where
  "match_at dg [] s i = True"
| "match_at dg (Bol # p) s i = (i = 0 \<and> match_at dg p s i)"
| "match_at dg (Eol # p) s i = (i = length s \<and> match_at dg p s i)"
| "match_at dg (Rep c lo hi # p) s i =
     list_ex (\<lambda>k. i + k \<le> length s \<and> list_all (in_class dg c) (take k (drop i s)) \<and>
                   match_at dg p s (i + k))
       [lo..<Suc hi]"

definition is_match :: "(nat \<Rightarrow> bool) \<Rightarrow> rx list \<Rightarrow> ustr \<Rightarrow> bool" where
  "is_match dg p s = list_ex (match_at dg p s) [0..<Suc (length s)]"

text \<open>
  \<^verbatim>\<open>UNIType = Annotated[str, StringConstraints(pattern=r"^[a-z]{2,3}\d{1,4}$")]\<close>
\<close>

definition UNIType_pattern :: "rx list" where
  "UNIType_pattern = [Bol, Rep (Range 97 122) 2 3, Rep Digit 1 4, Eol]"

text \<open>
  The pattern as the specification writes it, \<^verbatim>\<open>^[a-z]{2,3}[0-9]{1,4}$\<close>, to compare
  with the one of the source.
\<close>

definition spec_pattern :: "rx list" where
  "spec_pattern = [Bol, Rep (Range 97 122) 2 3, Rep (Range 48 57) 1 4, Eol]"

text \<open>
  UTF-8, as the engine decodes \<open>bytes\<close> given for a \<open>str\<close> field: shortest forms only,
  no surrogate, nothing above U+10FFFF. \<open>None\<close>: the bytes are not valid UTF-8.
\<close>

definition cont :: "nat \<Rightarrow> bool" where
  "cont b = (0x80 \<le> b \<and> b \<le> 0xBF)"

fun utf8 :: "nat list \<Rightarrow> ustr option" where
  "utf8 [] = Some []"
| "utf8 (b0 # bs) =
     (if b0 < 0x80 then map_option ((#) b0) (utf8 bs)
      else if 0xC2 \<le> b0 \<and> b0 \<le> 0xDF then
        (case bs of
           b1 # r \<Rightarrow>
             if cont b1
             then map_option ((#) ((b0 - 0xC0) * 64 + (b1 - 0x80))) (utf8 r)
             else None
         | _ \<Rightarrow> None)
      else if 0xE0 \<le> b0 \<and> b0 \<le> 0xEF then
        (case bs of
           b1 # b2 # r \<Rightarrow>
             if (if b0 = 0xE0 then 0xA0 else 0x80) \<le> b1 \<and>
                b1 \<le> (if b0 = 0xED then 0x9F else 0xBF) \<and> cont b2
             then map_option
                    ((#) ((b0 - 0xE0) * 4096 + (b1 - 0x80) * 64 + (b2 - 0x80))) (utf8 r)
             else None
         | _ \<Rightarrow> None)
      else if 0xF0 \<le> b0 \<and> b0 \<le> 0xF4 then
        (case bs of
           b1 # b2 # b3 # r \<Rightarrow>
             if (if b0 = 0xF0 then 0x90 else 0x80) \<le> b1 \<and>
                b1 \<le> (if b0 = 0xF4 then 0x8F else 0xBF) \<and> cont b2 \<and> cont b3
             then map_option
                    ((#) ((b0 - 0xF0) * 262144 + (b1 - 0x80) * 4096 + (b2 - 0x80) * 64 +
                          (b3 - 0x80))) (utf8 r)
             else None
         | _ \<Rightarrow> None)
      else None)"

definition utf8_decode :: "byte list \<Rightarrow> ustr option" where
  "utf8_decode bs = utf8 (map unat bs)"

text \<open>
  A \<open>str\<close> may hold a lone surrogate (U+D800 to U+DFFF), which no UTF-8 text can.
\<close>

definition has_surrogate :: "ustr \<Rightarrow> bool" where
  "has_surrogate s = list_ex (\<lambda>c. 0xD800 \<le> c \<and> c \<le> 0xDFFF) s"

section \<open>Schemas and their validation\<close>

text \<open>
  A field annotation: \<open>str\<close> with an optional pattern, \<open>date\<close>, \<open>datetime\<close>, \<open>UUID\<close>,
  and \<open>Optional[...]\<close>.
\<close>

datatype ftype = TStr "rx list option" | TDate | TDatetime | TUuid | TOptional ftype

datatype factory = Uuid4 | Utcnow

text \<open>
  \<open>Field(...)\<close>: required; \<open>Field(None)\<close>: a default value;
  \<open>Field(default_factory=f)\<close>: a default computed at construction.
\<close>

datatype fdefault = Required | Default pyval | DefaultFactory factory

record field_info =
  fname :: string
  annotation :: ftype
  default :: fdefault
  description :: "string option"
  example :: "string option"

text \<open>
  A model class: its docstring, its fields in declaration order, and the examples of its
  \<open>model_config\<close>. No class of the repository sets another key of \<open>model_config\<close>, so
  input keys that name no field are ignored (the default, \<open>extra = 'ignore'\<close>).
\<close>

record model_class =
  doc :: "string option"
  model_fields :: "field_info list"
  examples :: "(string \<times> string) list list"

text \<open>The kinds of error a \<open>ValidationError\<close> lists, each with the field it is about.\<close>

datatype error_type =
    Missing
  | StringType
  | StringUnicode
  | StringPatternMismatch
  | DateError
  | DatetimeError
  | UuidError

type_synonym validation_error = "(string \<times> error_type) list"

text \<open>
  What the validation engine brings and the repository does not fix: the table of
  decimal digits of its regular expressions, and its scalar coercions, that is which
  input values a \<open>date\<close>, a \<open>datetime\<close> and a \<open>UUID\<close> field accept and the value each
  yields. The schemas are validated relative to them: a statement about an engine \<open>L\<close>
  holds for every table and all coercions.
\<close>

record engine =
  decimal_digit :: "nat \<Rightarrow> bool"
  as_date :: "pyval \<Rightarrow> date option"
  as_datetime :: "pyval \<Rightarrow> datetime option"
  as_uuid :: "pyval \<Rightarrow> uuid option"

text \<open>
  The state that default factories read: the random source behind \<open>uuid4\<close> and the
  process clock behind \<open>datetime.utcnow\<close>, each as the sequence of its future readings
  and the number of readings taken so far.
\<close>

record world =
  entropy :: "nat \<Rightarrow> 128 word"
  draws :: nat
  clock :: "nat \<Rightarrow> datetime"
  ticks :: nat

text \<open>
  \<open>uuid4()\<close> is \<open>UUID(bytes=os.urandom(16), version=4)\<close>: 128 random bits with the
  variant and version fields overwritten.
\<close>

definition set_version4 :: "128 word \<Rightarrow> uuid" where
  "set_version4 x =
     (((x AND NOT (push_bit 48 0xC000)) OR push_bit 48 0x8000)
        AND NOT (push_bit 64 0xF000)) OR push_bit 76 4"

definition uuid4 :: "world \<Rightarrow> uuid \<times> world" where
  "uuid4 w = (set_version4 (entropy w (draws w)), w\<lparr>draws := Suc (draws w)\<rparr>)"

definition utcnow :: "world \<Rightarrow> datetime \<times> world" where
  "utcnow w = (clock w (ticks w), w\<lparr>ticks := Suc (ticks w)\<rparr>)"

fun call_factory :: "factory \<Rightarrow> world \<Rightarrow> pyval \<times> world" where
  "call_factory Uuid4 w = (case uuid4 w of (u, w') \<Rightarrow> (PUuid u, w'))"
| "call_factory Utcnow w = (case utcnow w of (t, w') \<Rightarrow> (PDatetime t, w'))"

text \<open>
  The input of a \<open>str\<close> field, in the default (lax) mode: a \<open>str\<close> is taken as it is,
  \<open>bytes\<close> are decoded, and numbers, among the other values, are not converted.
\<close>

fun validate_str :: "pyval \<Rightarrow> error_type + ustr" where
  "validate_str (PStr s) = Inr s"
| "validate_str (PBytes b) =
     (case utf8_decode b of Some s \<Rightarrow> Inr s | None \<Rightarrow> Inl StringUnicode)"
| "validate_str v = Inl StringType"

text \<open>
  Validation of one supplied value against an annotation. A string under a pattern
  constraint is handed to the regular expression engine as UTF-8, which a string with
  a lone surrogate does not have; without a constraint the string is kept as it came.
\<close>

fun validate_type :: "engine \<Rightarrow> ftype \<Rightarrow> pyval \<Rightarrow> error_type + pyval" where
  "validate_type L (TStr pat) v =
     (case validate_str v of
        Inl e \<Rightarrow> Inl e
      | Inr s \<Rightarrow>
          (case pat of
             None \<Rightarrow> Inr (PStr s)
           | Some p \<Rightarrow>
               if has_surrogate s then Inl StringUnicode
               else if is_match (decimal_digit L) p s then Inr (PStr s)
               else Inl StringPatternMismatch))"
| "validate_type L TDate v =
     (case as_date L v of Some d \<Rightarrow> Inr (PDate d) | None \<Rightarrow> Inl DateError)"
| "validate_type L TDatetime v =
     (case as_datetime L v of Some t \<Rightarrow> Inr (PDatetime t) | None \<Rightarrow> Inl DatetimeError)"
| "validate_type L TUuid v =
     (case as_uuid L v of Some u \<Rightarrow> Inr (PUuid u) | None \<Rightarrow> Inl UuidError)"
| "validate_type L (TOptional t) v =
     (if v = PNone then Inr PNone else validate_type L t v)"

text \<open>
  One field: a supplied value is validated; an absent one takes the default, which is
  not validated, or is reported missing.
\<close>

definition validate_field ::
  "engine \<Rightarrow> field_info \<Rightarrow> pyval option \<Rightarrow> world \<Rightarrow> (error_type + pyval) \<times> world" where
  "validate_field L f inp w =
     (case inp of
        Some v \<Rightarrow> (validate_type L (annotation f) v, w)
      | None \<Rightarrow>
          (case default f of
             Required \<Rightarrow> (Inl Missing, w)
           | Default d \<Rightarrow> (Inr d, w)
           | DefaultFactory g \<Rightarrow> (case call_factory g w of (v, w') \<Rightarrow> (Inr v, w'))))"

text \<open>
  All fields, in declaration order: every field is processed, errors are collected,
  and the factories of absent fields run whether or not an earlier field failed.
\<close>

fun validate_fields ::
  "engine \<Rightarrow> field_info list \<Rightarrow> (string \<rightharpoonup> pyval) \<Rightarrow> world \<Rightarrow>
     validation_error \<times> (string \<times> pyval) list \<times> world" where
  "validate_fields L [] m w = ([], [], w)"
| "validate_fields L (f # fs) m w =
     (case validate_field L f (m (fname f)) w of
        (r, w1) \<Rightarrow>
          (case validate_fields L fs m w1 of
             (es, vs, w2) \<Rightarrow>
               (case r of
                  Inl e \<Rightarrow> ((fname f, e) # es, vs, w2)
                | Inr v \<Rightarrow> (es, (fname f, v) # vs, w2))))"

text \<open>
  Constructing a model from an input object: the instance (its fields with their
  values, in declaration order) or the \<open>ValidationError\<close>; all or nothing.
\<close>

definition validate_model ::
  "engine \<Rightarrow> model_class \<Rightarrow> (string \<rightharpoonup> pyval) \<Rightarrow> world \<Rightarrow>
     (validation_error + (string \<times> pyval) list) \<times> world" where
  "validate_model L C m w =
     (case validate_fields L (model_fields C) m w of
        (es, vs, w') \<Rightarrow> (if es = [] then Inr vs else Inl es, w'))"

section \<open>The schemas of the repository\<close>

definition Field ::
  "string \<Rightarrow> ftype \<Rightarrow> fdefault \<Rightarrow> string option \<Rightarrow> string option \<Rightarrow> field_info" where
  "Field n a d descr ex =
     \<lparr>fname = n, annotation = a, default = d, description = descr, example = ex\<rparr>"

definition UNIType :: ftype where
  "UNIType = TStr (Some UNIType_pattern)"

subsection \<open>\<^verbatim>\<open>models/departments.py\<close>\<close>

definition DepartmentBase :: model_class where
  "DepartmentBase =
     \<lparr>doc = None,
      model_fields =
        [Field ''code'' UNIType Required (Some ''Code of the department.'') (Some ''abc1234''),
         Field ''staff'' (TStr None) Required (Some ''Given name.'') (Some ''Ada''),
         Field ''founding_date'' (TOptional TDate) (Default PNone)
           (Some ''start date (YYYY-MM-DD).'') (Some ''1815-12-10'')],
      examples =
        [[(''code'', ''abc1234''), (''staff'', ''Ada''), (''founding_date'', ''Lovelace'')]]\<rparr>"

text \<open>\<open>class DepartmentCreate(DepartmentBase)\<close>: a docstring and a \<open>model_config\<close>, no field.\<close>

definition DepartmentCreate :: model_class where
  "DepartmentCreate =
     DepartmentBase
       \<lparr>doc := Some ''Creation payload for a department.'',
        examples :=
          [[(''code'', ''abc1234''), (''staff'', ''Ada''), (''founding_date'', ''Lovelace'')]]\<rparr>"

definition DepartmentUpdate :: model_class where
  "DepartmentUpdate =
     \<lparr>doc = Some ''Partial update for a department; supply only fields to change.'',
      model_fields =
        [Field ''code'' (TOptional UNIType) (Default PNone) (Some ''Columbia UNI.'')
           (Some ''ab1234''),
         Field ''staff'' (TOptional (TStr None)) (Default PNone) None (Some ''Augusta''),
         Field ''founding_date'' (TOptional TDate) (Default PNone) None (Some ''1815-12-10'')],
      examples = []\<rparr>"

text \<open>\<open>class DepartmentRead(DepartmentBase)\<close>: three more fields, each with a factory.\<close>

definition DepartmentRead :: model_class where
  "DepartmentRead =
     \<lparr>doc = Some ''Server representation returned to clients.'',
      model_fields =
        model_fields DepartmentBase @
        [Field ''id'' TUuid (DefaultFactory Uuid4) (Some ''Server-generated Lecture ID.'')
           (Some ''99999999-9999-4999-8999-999999999999''),
         Field ''created_at'' TDatetime (DefaultFactory Utcnow)
           (Some ''Creation timestamp (UTC).'') (Some ''2025-01-15T10:20:30Z''),
         Field ''updated_at'' TDatetime (DefaultFactory Utcnow)
           (Some ''Last update timestamp (UTC).'') (Some ''2025-01-16T12:00:00Z'')],
      examples =
        [[(''code'', ''abc1234''), (''staff'', ''Ada''), (''founding_date'', ''Lovelace'')]]\<rparr>"

subsection \<open>\<^verbatim>\<open>models/lectures.py\<close>\<close>

definition LectureBase :: model_class where
  "LectureBase =
     \<lparr>doc = None,
      model_fields =
        [Field ''code'' UNIType Required (Some ''Code of the lecture.'') (Some ''abc1234''),
         Field ''professor'' (TStr None) Required (Some ''Given name.'') (Some ''Ada''),
         Field ''start_date'' (TOptional TDate) (Default PNone)
           (Some ''start date (YYYY-MM-DD).'') (Some ''1815-12-10'')],
      examples =
        [[(''code'', ''abc1234''), (''professor'', ''Ada''), (''start_date'', ''Lovelace'')]]\<rparr>"

definition LectureCreate :: model_class where
  "LectureCreate =
     LectureBase
       \<lparr>doc := Some ''Creation payload for a Person.'',
        examples :=
          [[(''code'', ''abc1234''), (''professor'', ''Ada''), (''start_date'', ''Lovelace'')]]\<rparr>"

definition LectureUpdate :: model_class where
  "LectureUpdate =
     \<lparr>doc = Some ''Partial update for a Person; supply only fields to change.'',
      model_fields =
        [Field ''code'' (TOptional UNIType) (Default PNone) (Some ''Columbia UNI.'')
           (Some ''ab1234''),
         Field ''professor'' (TOptional (TStr None)) (Default PNone) None (Some ''Augusta''),
         Field ''start_date'' (TOptional TDate) (Default PNone) None (Some ''1815-12-10'')],
      examples = []\<rparr>"

definition LectureRead :: model_class where
  "LectureRead =
     \<lparr>doc = Some ''Server representation returned to clients.'',
      model_fields =
        model_fields LectureBase @
        [Field ''id'' TUuid (DefaultFactory Uuid4) (Some ''Server-generated Lecture ID.'')
           (Some ''99999999-9999-4999-8999-999999999999''),
         Field ''created_at'' TDatetime (DefaultFactory Utcnow)
           (Some ''Creation timestamp (UTC).'') (Some ''2025-01-15T10:20:30Z''),
         Field ''updated_at'' TDatetime (DefaultFactory Utcnow)
           (Some ''Last update timestamp (UTC).'') (Some ''2025-01-16T12:00:00Z'')],
      examples =
        [[(''id'', ''99999999-9999-4999-8999-999999999999''), (''code'', ''abc1234''),
          (''professor'', ''Ada''), (''start_date'', ''1815-12-10''),
          (''created_at'', ''2025-01-15T10:20:30Z''),
          (''updated_at'', ''2025-01-16T12:00:00Z'')]]\<rparr>"

section \<open>Sample data\<close>

text \<open>
  An engine to evaluate the schemas on sample inputs: the table of Unicode 16.0, and
  of the coercions only what every mode of the engine does, taking an instance of the
  field's own type as it is. (The lax mode converts further inputs to a date, a
  timestamp or an identifier; no evaluation below supplies one.)
\<close>

definition sample_engine :: engine where
  "sample_engine =
     \<lparr>decimal_digit = unicode_Nd,
      as_date = (\<lambda>v. case v of PDate d \<Rightarrow> Some d | _ \<Rightarrow> None),
      as_datetime = (\<lambda>v. case v of PDatetime t \<Rightarrow> Some t | _ \<Rightarrow> None),
      as_uuid = (\<lambda>v. case v of PUuid u \<Rightarrow> Some u | _ \<Rightarrow> None)\<rparr>"

definition sample_time :: datetime where
  "sample_time =
     \<lparr>date_part = \<lparr>year = 2025, month = 1, day = 15\<rparr>, hour = 10, minute = 20, second = 30,
      microsecond = 0, utcoffset = None\<rparr>"

definition sample_world :: world where
  "sample_world =
     \<lparr>entropy = (\<lambda>n. of_nat n), draws = 0,
      clock = (\<lambda>n. sample_time\<lparr>microsecond := n\<rparr>), ticks = 0\<rparr>"

section \<open>Auxiliary notions for the statements\<close>

text \<open>A field list none of whose defaults is a factory.\<close>

definition factory_free :: "field_info list \<Rightarrow> bool" where
  "factory_free fs =
     list_all (\<lambda>f. case default f of DefaultFactory g \<Rightarrow> False | _ \<Rightarrow> True) fs"

text \<open>
  The correspondence of field names between the two modules: \<open>staff\<close> and \<open>professor\<close>,
  \<open>founding_date\<close> and \<open>start_date\<close>; every other name corresponds to itself.
\<close>

definition lecture_name :: "string \<Rightarrow> string" where
  "lecture_name k =
     (if k = ''staff'' then ''professor''
      else if k = ''professor'' then ''staff''
      else if k = ''founding_date'' then ''start_date''
      else if k = ''start_date'' then ''founding_date''
      else k)"

definition rename_keys :: "(string \<Rightarrow> string) \<Rightarrow> (string \<times> 'a) list \<Rightarrow> (string \<times> 'a) list" where
  "rename_keys f kvs = map (\<lambda>(k, v). (f k, v)) kvs"

text \<open>Two fields that differ in their names (and documentation) only.\<close>

definition same_field_as :: "(string \<Rightarrow> string) \<Rightarrow> field_info \<Rightarrow> field_info \<Rightarrow> bool" where
  "same_field_as f a b =
     (fname a = f (fname b) \<and> annotation a = annotation b \<and> default a = default b)"

section \<open>Basic facts\<close>

lemma str_of_simps: "str_of [] = []" "str_of (c # cs) = of_char c # str_of cs"
  by (simp_all add: str_of_def)

lemmas schema_defs =
  DepartmentBase_def DepartmentCreate_def DepartmentUpdate_def DepartmentRead_def
  LectureBase_def LectureCreate_def LectureUpdate_def LectureRead_def Field_def UNIType_def

subsection \<open>The matcher\<close>

lemma match_at_Rep:
  "match_at dg (Rep c lo hi # p) s i \<longleftrightarrow>
     (\<exists>k. lo \<le> k \<and> k \<le> hi \<and> i + k \<le> length s \<and>
          list_all (in_class dg c) (take k (drop i s)) \<and> match_at dg p s (i + k))"
  by (auto simp: list_ex_iff)

declare match_at.simps(4) [simp del]

lemma is_match_iff: "is_match dg p s \<longleftrightarrow> (\<exists>i\<le>length s. match_at dg p s i)"
proof -
  have "set [0..<Suc (length s)] = {i. i \<le> length s}" by auto
  then show ?thesis unfolding is_match_def list_ex_iff by blast
qed

text \<open>An anchored pattern of two runs matches exactly the strings that split into them.\<close>

lemma is_match_two_runs:
  "is_match dg [Bol, Rep a la ha, Rep b lb hb, Eol] s \<longleftrightarrow>
     (\<exists>ls ds. s = ls @ ds \<and> la \<le> length ls \<and> length ls \<le> ha \<and>
              list_all (in_class dg a) ls \<and>
              lb \<le> length ds \<and> length ds \<le> hb \<and> list_all (in_class dg b) ds)"
    (is "?lhs \<longleftrightarrow> ?rhs")
proof
  assume ?lhs
  then obtain i where "match_at dg [Bol, Rep a la ha, Rep b lb hb, Eol] s i"
    by (auto simp: is_match_iff)
  then have "match_at dg [Rep a la ha, Rep b lb hb, Eol] s 0"
    by auto
  then obtain k1 where k1: "la \<le> k1" "k1 \<le> ha" "k1 \<le> length s"
      "list_all (in_class dg a) (take k1 s)" "match_at dg [Rep b lb hb, Eol] s k1"
    unfolding match_at_Rep by auto
  from k1(5) obtain k2 where k2: "lb \<le> k2" "k2 \<le> hb" "k1 + k2 \<le> length s"
      "list_all (in_class dg b) (take k2 (drop k1 s))" "match_at dg [Eol] s (k1 + k2)"
    unfolding match_at_Rep by auto
  from k2(5) have len: "k1 + k2 = length s" by simp
  then have d: "take k2 (drop k1 s) = drop k1 s" by simp
  have "s = take k1 s @ drop k1 s" by simp
  moreover have "length (take k1 s) = k1" using k1(3) by simp
  moreover have "length (drop k1 s) = k2" using len by simp
  ultimately show ?rhs
    using k1 k2 d by metis
next
  assume ?rhs
  then obtain ls ds where h: "s = ls @ ds" "la \<le> length ls" "length ls \<le> ha"
     "list_all (in_class dg a) ls" "lb \<le> length ds" "length ds \<le> hb"
     "list_all (in_class dg b) ds"
    by blast
  have e: "match_at dg [Eol] s (length ls + length ds)" using h(1) by simp
  have "match_at dg [Rep b lb hb, Eol] s (length ls)"
    unfolding match_at_Rep using h e by (intro exI[of _ "length ds"]) simp
  then have "match_at dg [Rep a la ha, Rep b lb hb, Eol] s 0"
    unfolding match_at_Rep[of dg a] using h by (intro exI[of _ "length ls"]) simp
  then have "match_at dg [Bol, Rep a la ha, Rep b lb hb, Eol] s 0" by simp
  then show ?lhs
    unfolding is_match_iff by blast
qed

lemma is_match_UNIType:
  "is_match dg UNIType_pattern s \<longleftrightarrow>
     (\<exists>ls ds. s = ls @ ds \<and> 2 \<le> length ls \<and> length ls \<le> 3 \<and>
              (\<forall>c\<in>set ls. 97 \<le> c \<and> c \<le> 122) \<and>
              1 \<le> length ds \<and> length ds \<le> 4 \<and> (\<forall>c\<in>set ds. dg c))"
  unfolding UNIType_pattern_def is_match_two_runs by (simp add: list_all_iff)

subsection \<open>Fields and the world\<close>

lemma validate_fields_ignore:
  "k \<notin> fname ` set fs \<Longrightarrow> validate_fields L fs (m(k \<mapsto> v)) w = validate_fields L fs m w"
  by (induction fs arbitrary: w) (auto split: prod.splits)

lemma validate_fields_keys_ok:
  "validate_fields L fs m w = ([], vs, w') \<Longrightarrow> map fst vs = map fname fs"
  by (induction fs arbitrary: w vs w') (auto split: prod.splits sum.splits)

lemma validate_field_pure:
  "(case default f of DefaultFactory g \<Rightarrow> False | _ \<Rightarrow> True) \<Longrightarrow>
   validate_field L f inp w = (fst (validate_field L f inp w0), w)"
  by (auto simp: validate_field_def split: option.splits fdefault.splits)

text \<open>Without a factory the world is neither read nor changed.\<close>

lemma validate_fields_pure:
  "factory_free fs \<Longrightarrow>
   validate_fields L fs m w =
     (fst (validate_fields L fs m w0), fst (snd (validate_fields L fs m w0)), w)"
proof (induction fs arbitrary: w w0)
  case Nil
  then show ?case by simp
next
  case (Cons f fs)
  then have p: "case default f of DefaultFactory g \<Rightarrow> False | _ \<Rightarrow> True"
    and fs: "factory_free fs"
    by (auto simp: factory_free_def)
  obtain r u where r0: "validate_field L f (m (fname f)) w0 = (r, u)"
    by (cases "validate_field L f (m (fname f)) w0")
  have f0: "validate_field L f (m (fname f)) w0 = (r, w0)"
    using validate_field_pure[OF p, of L "m (fname f)" w0 w0] r0 by simp
  have f: "validate_field L f (m (fname f)) w = (r, w)"
    using validate_field_pure[OF p, of L "m (fname f)" w w0] r0 by simp
  obtain es vs u' where t0: "validate_fields L fs m w0 = (es, vs, u')"
    by (cases "validate_fields L fs m w0")
  have t: "validate_fields L fs m w = (es, vs, w)"
    using Cons.IH[OF fs, of w w0] t0 by simp
  show ?case
    by (simp add: f f0 t t0 split: sum.splits)
qed

lemma validate_model_pure:
  "factory_free (model_fields C) \<Longrightarrow>
   validate_model L C m w = (fst (validate_model L C m w0), w)"
  using validate_fields_pure[of "model_fields C" L m w w0]
  by (simp add: validate_model_def split: prod.splits)



subsection \<open>Renaming\<close>

lemma validate_field_cong:
  "annotation a = annotation b \<Longrightarrow> default a = default b \<Longrightarrow>
   validate_field L a inp w = validate_field L b inp w"
  by (cases inp) (simp_all add: validate_field_def)

lemma validate_fields_rename:
  "list_all2 (same_field_as f) fsL fsD \<Longrightarrow>
   validate_fields L fsL m w =
     (case validate_fields L fsD (\<lambda>k. m (f k)) w of
        (es, vs, w') \<Rightarrow> (rename_keys f es, rename_keys f vs, w'))"
proof (induction fsL fsD arbitrary: w rule: list_all2_induct)
  case Nil
  then show ?case by (simp add: rename_keys_def)
next
  case (Cons a fsL b fsD)
  have n: "fname a = f (fname b)"
    using Cons.hyps(1) by (simp add: same_field_as_def)
  obtain r w1 where r: "validate_field L b ((\<lambda>k. m (f k)) (fname b)) w = (r, w1)"
    by (cases "validate_field L b ((\<lambda>k. m (f k)) (fname b)) w")
  have ra: "validate_field L a (m (fname a)) w = (r, w1)"
    using Cons.hyps(1) validate_field_cong[of a b L "m (fname a)" w] r
    by (simp add: same_field_as_def)
  obtain es vs w2 where t: "validate_fields L fsD (\<lambda>k. m (f k)) w1 = (es, vs, w2)"
    by (cases "validate_fields L fsD (\<lambda>k. m (f k)) w1")
  have ta: "validate_fields L fsL m w1 = (rename_keys f es, rename_keys f vs, w2)"
    using Cons.IH[of w1] t by simp
  show ?case
    using r ra t ta n by (cases r) (simp_all add: rename_keys_def)
qed

lemma validate_model_rename:
  assumes "list_all2 (same_field_as f) (model_fields Lc) (model_fields D)"
    and "validate_model L D (\<lambda>k. m (f k)) w = (r, w')"
  shows "validate_model L Lc m w = (map_sum (rename_keys f) (rename_keys f) r, w')"
  using assms(2) validate_fields_rename[OF assms(1), of L m w]
  by (auto simp: validate_model_def rename_keys_def split: prod.splits if_splits)

subsection \<open>The \<open>code\<close> field\<close>

lemma create_code_staff:
  "validate_model L DepartmentCreate [''code'' \<mapsto> PStr s, ''staff'' \<mapsto> PStr t] w =
     (if has_surrogate s then Inl [(''code'', StringUnicode)]
      else if is_match (decimal_digit L) UNIType_pattern s
      then Inr [(''code'', PStr s), (''staff'', PStr t), (''founding_date'', PNone)]
      else Inl [(''code'', StringPatternMismatch)], w)"
  "validate_model L LectureCreate [''code'' \<mapsto> PStr s, ''professor'' \<mapsto> PStr t] w =
     (if has_surrogate s then Inl [(''code'', StringUnicode)]
      else if is_match (decimal_digit L) UNIType_pattern s
      then Inr [(''code'', PStr s), (''professor'', PStr t), (''start_date'', PNone)]
      else Inl [(''code'', StringPatternMismatch)], w)"
  by (simp_all add: validate_model_def validate_field_def schema_defs)

lemma update_code:
  "validate_model L DepartmentUpdate [''code'' \<mapsto> PStr s] w =
     (if has_surrogate s then Inl [(''code'', StringUnicode)]
      else if is_match (decimal_digit L) UNIType_pattern s
      then Inr [(''code'', PStr s), (''staff'', PNone), (''founding_date'', PNone)]
      else Inl [(''code'', StringPatternMismatch)], w)"
  "validate_model L LectureUpdate [''code'' \<mapsto> PStr s] w =
     (if has_surrogate s then Inl [(''code'', StringUnicode)]
      else if is_match (decimal_digit L) UNIType_pattern s
      then Inr [(''code'', PStr s), (''professor'', PNone), (''start_date'', PNone)]
      else Inl [(''code'', StringPatternMismatch)], w)"
  by (simp_all add: validate_model_def validate_field_def schema_defs)

subsection \<open>Evaluation on sample strings\<close>

lemmas match_eval =
  match_at.simps is_match_def UNIType_pattern_def spec_pattern_def unicode_Nd_def
  Nd_runs_def upt_rec str_of_def

lemma sample_digit [simp]: "decimal_digit sample_engine = unicode_Nd"
  by (simp add: sample_engine_def)

lemma match_abc1234: "is_match unicode_Nd UNIType_pattern (str_of ''abc1234'')"
  by (simp add: match_eval)


lemma no_match_upper: "\<not> is_match unicode_Nd UNIType_pattern (str_of ''ABC1234'')"
  by (simp add: match_eval)

text \<open>\<open>ab\<close> followed by U+0663, ARABIC-INDIC DIGIT THREE.\<close>

lemma match_arabic_digit: "is_match unicode_Nd UNIType_pattern [97, 98, 0x663]"
  by (simp add: match_eval)

lemma spec_no_match_arabic_digit: "\<not> is_match dg spec_pattern [97, 98, 0x663]"
  by (simp add: match_eval)

lemma no_surrogate_samples [simp]:
  "\<not> has_surrogate (str_of ''abc1234'')" "\<not> has_surrogate (str_of ''ab1'')"
  "\<not> has_surrogate (str_of ''ABC1234'')" "\<not> has_surrogate [97, 98, 0x663]"
  by (simp_all add: has_surrogate_def str_of_def)

subsection \<open>Errors, concatenation and the server fields\<close>


lemma validate_fields_append:
  "validate_fields L (fs @ gs) m w =
     (case validate_fields L fs m w of
        (es, vs, w1) \<Rightarrow>
          (case validate_fields L gs m w1 of
             (es', vs', w2) \<Rightarrow> (es @ es', vs @ vs', w2)))"
proof (induction fs arbitrary: w)
  case Nil
  then show ?case by (simp split: prod.splits)
next
  case (Cons a fs)
  obtain r w1 where r: "validate_field L a (m (fname a)) w = (r, w1)"
    by (cases "validate_field L a (m (fname a)) w")
  show ?case
    by (cases r) (simp_all add: r Cons.IH split: prod.splits)
qed

lemma server_fields_ok:
  assumes "validate_fields L (drop 3 (model_fields DepartmentRead)) m w = ([], vs, w')"
  shows "\<exists>u t1 t2.
     vs = [(''id'', PUuid u), (''created_at'', PDatetime t1), (''updated_at'', PDatetime t2)] \<and>
     (case m ''id'' of None \<Rightarrow> u = fst (uuid4 w) | Some v \<Rightarrow> as_uuid L v = Some u) \<and>
     (case m ''created_at'' of None \<Rightarrow> t1 = fst (utcnow w) | Some v \<Rightarrow> as_datetime L v = Some t1) \<and>
     (case m ''updated_at'' of
        None \<Rightarrow> t2 = clock w (ticks w + (if m ''created_at'' = None then 1 else 0))
      | Some v \<Rightarrow> as_datetime L v = Some t2)"
  using assms
  by (auto simp: schema_defs validate_field_def uuid4_def utcnow_def split: option.splits)

lemma model_ok_fields:
  "validate_model L C m w = (Inr obj, w') \<longleftrightarrow> validate_fields L (model_fields C) m w = ([], obj, w')"
  by (auto simp: validate_model_def split: prod.splits if_splits)




subsection \<open>Bytes, and the state after the server fields\<close>



lemma server_fields_world:
  assumes "validate_fields L (drop 3 (model_fields DepartmentRead)) m w = (es, vs, w')"
  shows "w' = w\<lparr>draws := draws w + (if m ''id'' = None then 1 else 0),
                ticks := ticks w + (if m ''created_at'' = None then 1 else 0) +
                         (if m ''updated_at'' = None then 1 else 0)\<rparr>"
  using assms
  by (auto simp: schema_defs validate_field_def uuid4_def utcnow_def
           split: option.splits sum.splits)


text \<open>A Read object: its three server fields and the state its construction leaves.\<close>

lemma read_object:
  assumes "Rd \<in> set [DepartmentRead, LectureRead]"
    and "validate_model L Rd m w = (Inr obj, w')"
  shows "(\<exists>u t1 t2.
     map_of obj ''id'' = Some (PUuid u) \<and>
     map_of obj ''created_at'' = Some (PDatetime t1) \<and>
     map_of obj ''updated_at'' = Some (PDatetime t2) \<and>
     (case m ''id'' of None \<Rightarrow> u = fst (uuid4 w) | Some v \<Rightarrow> as_uuid L v = Some u) \<and>
     (case m ''created_at'' of None \<Rightarrow> t1 = fst (utcnow w)
      | Some v \<Rightarrow> as_datetime L v = Some t1) \<and>
     (case m ''updated_at'' of
        None \<Rightarrow> t2 = clock w (ticks w + (if m ''created_at'' = None then 1 else 0))
      | Some v \<Rightarrow> as_datetime L v = Some t2)) \<and>
     w' = w\<lparr>draws := draws w + (if m ''id'' = None then 1 else 0),
            ticks := ticks w + (if m ''created_at'' = None then 1 else 0) +
                     (if m ''updated_at'' = None then 1 else 0)\<rparr>"
proof -
  let ?base = "take 3 (model_fields Rd)" and ?srv = "drop 3 (model_fields Rd)"
  have pure: "factory_free ?base"
    using assms(1) by (auto simp: schema_defs factory_free_def)
  have names: "''id'' \<notin> set (map fname ?base)" "''created_at'' \<notin> set (map fname ?base)"
      "''updated_at'' \<notin> set (map fname ?base)"
    using assms(1) by (auto simp: schema_defs)
  have srv: "?srv = drop 3 (model_fields DepartmentRead)"
    using assms(1) by (auto simp: schema_defs)
  obtain es1 vs1 w1 where b: "validate_fields L ?base m w = (es1, vs1, w1)"
    by (cases "validate_fields L ?base m w")
  obtain es2 vs2 w2 where s: "validate_fields L ?srv m w1 = (es2, vs2, w2)"
    by (cases "validate_fields L ?srv m w1")
  have w1: "w1 = w"
    using validate_fields_pure[OF pure, of L m w w] b by simp
  have app: "validate_fields L (?base @ ?srv) m w = (es1 @ es2, vs1 @ vs2, w2)"
    by (simp only: validate_fields_append b s prod.case)
  from assms(2) have "validate_fields L (model_fields Rd) m w = ([], obj, w')"
    by (simp add: model_ok_fields)
  with app have "(es1 @ es2, vs1 @ vs2, w2) = ([], obj, w')"
    by (simp only: append_take_drop_id)
  then have e: "es1 = []" "es2 = []" "obj = vs1 @ vs2" "w2 = w'"
    by simp_all
  have k1: "map fst vs1 = map fname ?base"
    using b e(1) by (intro validate_fields_keys_ok[of L _ m w _ w1]) simp
  from s e w1 srv
  have r: "validate_fields L (drop 3 (model_fields DepartmentRead)) m w = ([], vs2, w')"
    by simp
  from server_fields_ok[OF r] obtain u t1 t2 where
    v: "vs2 = [(''id'', PUuid u), (''created_at'', PDatetime t1), (''updated_at'', PDatetime t2)]"
    and c: "(case m ''id'' of None \<Rightarrow> u = fst (uuid4 w) | Some v \<Rightarrow> as_uuid L v = Some u)"
       "(case m ''created_at'' of None \<Rightarrow> t1 = fst (utcnow w)
         | Some v \<Rightarrow> as_datetime L v = Some t1)"
       "(case m ''updated_at'' of
        None \<Rightarrow> t2 = clock w (ticks w + (if m ''created_at'' = None then 1 else 0))
      | Some v \<Rightarrow> as_datetime L v = Some t2)"
    by blast
  have none: "map_of vs1 k = None" if "k \<notin> set (map fname ?base)" for k
  proof -
    have "k \<notin> fst ` set vs1" using that k1 by (metis set_map)
    then show ?thesis by (simp add: map_of_eq_None_iff)
  qed
  have "map_of obj ''id'' = Some (PUuid u)"
    "map_of obj ''created_at'' = Some (PDatetime t1)"
    "map_of obj ''updated_at'' = Some (PDatetime t2)"
    by (simp_all add: e(3) v map_add_def none[OF names(1)] none[OF names(2)] none[OF names(3)])
  with c server_fields_world[OF r] show ?thesis by blast
qed

lemma client_schema_keys:
  assumes "C \<in> set [DepartmentCreate, DepartmentUpdate, LectureCreate, LectureUpdate]"
    and "k \<in> {''id'', ''created_at'', ''updated_at''}"
  shows "k \<notin> fname ` set (model_fields C)"
  using assms by (auto simp: schema_defs)

section \<open>The claims\<close>

text \<open>
  C1. Constructing a Create object with the string \<open>s\<close> as \<open>code\<close> is to succeed
  exactly when \<open>s\<close> matches \<^verbatim>\<open>^[a-z]{2,3}[0-9]{1,4}$\<close>: two or three lower case
  letters and one to four digits, as the comment beside \<open>UNIType\<close> describes a
  Columbia UNI (\<open>abc1234\<close>). The pattern of the source writes \<^verbatim>\<open>\d\<close>, which over \<open>str\<close>
  is every Unicode decimal digit. Evaluated at the code \<open>ab\<close> followed by U+0663
  (ARABIC-INDIC DIGIT THREE): the string does not match the pattern of the
  specification, whatever the table of digits, and both Create schemas accept it.
\<close>

theorem code_accepts_non_ascii_digit:
  "\<not> is_match dg spec_pattern [97, 98, 0x663] \<and>
   validate_model sample_engine DepartmentCreate
     [''code'' \<mapsto> PStr [97, 98, 0x663], ''staff'' \<mapsto> PStr (str_of ''Ada'')] sample_world =
     (Inr [(''code'', PStr [97, 98, 0x663]), (''staff'', PStr (str_of ''Ada'')),
           (''founding_date'', PNone)], sample_world) \<and>
   validate_model sample_engine LectureCreate
     [''code'' \<mapsto> PStr [97, 98, 0x663], ''professor'' \<mapsto> PStr (str_of ''Ada'')] sample_world =
     (Inr [(''code'', PStr [97, 98, 0x663]), (''professor'', PStr (str_of ''Ada'')),
           (''start_date'', PNone)], sample_world)"
  using match_arabic_digit spec_no_match_arabic_digit by (simp add: create_code_staff)




text \<open>
  C3. Every Read object carries \<open>id\<close> (a UUID), \<open>created_at\<close> and \<open>updated_at\<close>
  (timestamps), and the server populates them, never the client. What a client
  sends is validated by the Create or the Update schema, and both drop a value
  given under one of the three names: the outcome is the one without it. The Read
  constructor, which the server calls, fills each of the three from its factory
  (\<open>uuid4\<close>, the clock) when it is given no value for it, and then only: the state of
  the random source and of the clock advances by exactly the factories that ran, and
  a value the server does pass is validated and kept. So the Read object built from
  an accepted Create object holds the identifier and the timestamps that the
  server's random source and clock gave, whatever the client's payload held.
\<close>

theorem read_fields_server_populated:
  assumes "(Cr, Up, Rd) \<in> set [(DepartmentCreate, DepartmentUpdate, DepartmentRead),
                              (LectureCreate, LectureUpdate, LectureRead)]"
  shows
   "(k \<in> {''id'', ''created_at'', ''updated_at''} \<longrightarrow>
        validate_model L Cr (m(k \<mapsto> x)) w = validate_model L Cr m w \<and>
        validate_model L Up (m(k \<mapsto> x)) w = validate_model L Up m w) \<and>
    (\<forall>obj w'. validate_model L Rd m w = (Inr obj, w') \<longrightarrow>
        (\<exists>u t1 t2.
           map_of obj ''id'' = Some (PUuid u) \<and>
           map_of obj ''created_at'' = Some (PDatetime t1) \<and>
           map_of obj ''updated_at'' = Some (PDatetime t2) \<and>
           (case m ''id'' of None \<Rightarrow> u = fst (uuid4 w) | Some v \<Rightarrow> as_uuid L v = Some u) \<and>
           (case m ''created_at'' of None \<Rightarrow> t1 = fst (utcnow w)
            | Some v \<Rightarrow> as_datetime L v = Some t1) \<and>
           (case m ''updated_at'' of
              None \<Rightarrow> t2 = clock w (ticks w + (if m ''created_at'' = None then 1 else 0))
            | Some v \<Rightarrow> as_datetime L v = Some t2)) \<and>
        w' = w\<lparr>draws := draws w + (if m ''id'' = None then 1 else 0),
               ticks := ticks w + (if m ''created_at'' = None then 1 else 0) +
                        (if m ''updated_at'' = None then 1 else 0)\<rparr>) \<and>
    (\<forall>c w1 obj w2.
        validate_model L Cr m w = (Inr c, w1) \<and>
        validate_model L Rd (map_of c) w1 = (Inr obj, w2) \<longrightarrow>
        map_of obj ''id'' = Some (PUuid (fst (uuid4 w))) \<and>
        map_of obj ''created_at'' = Some (PDatetime (clock w (ticks w))) \<and>
        map_of obj ''updated_at'' = Some (PDatetime (clock w (ticks w + 1))) \<and>
        w2 = w\<lparr>draws := draws w + 1, ticks := ticks w + 2\<rparr>)"
proof (intro conjI allI impI)
  assume k: "k \<in> {''id'', ''created_at'', ''updated_at''}"
  have cr: "Cr \<in> set [DepartmentCreate, DepartmentUpdate, LectureCreate, LectureUpdate]"
    and up: "Up \<in> set [DepartmentCreate, DepartmentUpdate, LectureCreate, LectureUpdate]"
    using assms by auto
  show "validate_model L Cr (m(k \<mapsto> x)) w = validate_model L Cr m w"
    using validate_fields_ignore[OF client_schema_keys[OF cr k], of L m x w]
    by (simp add: validate_model_def)
  show "validate_model L Up (m(k \<mapsto> x)) w = validate_model L Up m w"
    using validate_fields_ignore[OF client_schema_keys[OF up k], of L m x w]
    by (simp add: validate_model_def)
next
  fix obj w'
  assume a: "validate_model L Rd m w = (Inr obj, w')"
  have rd: "Rd \<in> set [DepartmentRead, LectureRead]" using assms by auto
  from read_object[OF rd a]
  show "\<exists>u t1 t2.
           map_of obj ''id'' = Some (PUuid u) \<and>
           map_of obj ''created_at'' = Some (PDatetime t1) \<and>
           map_of obj ''updated_at'' = Some (PDatetime t2) \<and>
           (case m ''id'' of None \<Rightarrow> u = fst (uuid4 w) | Some v \<Rightarrow> as_uuid L v = Some u) \<and>
           (case m ''created_at'' of None \<Rightarrow> t1 = fst (utcnow w)
            | Some v \<Rightarrow> as_datetime L v = Some t1) \<and>
           (case m ''updated_at'' of
              None \<Rightarrow> t2 = clock w (ticks w + (if m ''created_at'' = None then 1 else 0))
            | Some v \<Rightarrow> as_datetime L v = Some t2)"
    and "w' = w\<lparr>draws := draws w + (if m ''id'' = None then 1 else 0),
               ticks := ticks w + (if m ''created_at'' = None then 1 else 0) +
                        (if m ''updated_at'' = None then 1 else 0)\<rparr>"
    by blast+
next
  fix c w1 obj w2
  assume a: "validate_model L Cr m w = (Inr c, w1) \<and>
        validate_model L Rd (map_of c) w1 = (Inr obj, w2)"
  have rd: "Rd \<in> set [DepartmentRead, LectureRead]" using assms by auto
  have pure: "factory_free (model_fields Cr)"
    using assms by (auto simp: schema_defs factory_free_def)
  have w1: "w1 = w"
    using validate_model_pure[OF pure, of L m w w] a by simp
  from a have "validate_fields L (model_fields Cr) m w = ([], c, w1)"
    by (simp add: model_ok_fields)
  then have "map fst c = map fname (model_fields Cr)"
    by (rule validate_fields_keys_ok)
  then have "fst ` set c = fname ` set (model_fields Cr)"
    by (metis set_map)
  then have keys: "''id'' \<notin> fst ` set c" "''created_at'' \<notin> fst ` set c"
      "''updated_at'' \<notin> fst ` set c"
    using assms by (auto simp: schema_defs)
  then have n: "map_of c ''id'' = None" "map_of c ''created_at'' = None"
      "map_of c ''updated_at'' = None"
    by (simp_all add: map_of_eq_None_iff)
  from a w1 have r: "validate_model L Rd (map_of c) w = (Inr obj, w2)" by simp
  from read_object[OF rd r]
  show "map_of obj ''id'' = Some (PUuid (fst (uuid4 w)))"
    and "map_of obj ''created_at'' = Some (PDatetime (clock w (ticks w)))"
    and "map_of obj ''updated_at'' = Some (PDatetime (clock w (ticks w + 1)))"
    and "w2 = w\<lparr>draws := draws w + 1, ticks := ticks w + 2\<rparr>"
    by (auto simp: n utcnow_def)
qed

text \<open>
  A payload that supplies an \<open>id\<close>: the Create object does not hold it, and the Read
  object built from the Create object has the identifier of \<open>uuid4\<close>.
\<close>

theorem read_fields_server_populated_witness:
  "validate_model sample_engine DepartmentCreate
     [''code'' \<mapsto> PStr (str_of ''abc1234''), ''staff'' \<mapsto> PStr (str_of ''Ada''),
      ''id'' \<mapsto> PUuid 5] sample_world =
     (Inr [(''code'', PStr (str_of ''abc1234'')), (''staff'', PStr (str_of ''Ada'')),
           (''founding_date'', PNone)], sample_world) \<and>
   validate_model sample_engine DepartmentRead
     (map_of [(''code'', PStr (str_of ''abc1234'')), (''staff'', PStr (str_of ''Ada'')),
              (''founding_date'', PNone)]) sample_world =
     (Inr [(''code'', PStr (str_of ''abc1234'')), (''staff'', PStr (str_of ''Ada'')),
           (''founding_date'', PNone), (''id'', PUuid (set_version4 0)),
           (''created_at'', PDatetime (sample_time\<lparr>microsecond := 0\<rparr>)),
           (''updated_at'', PDatetime (sample_time\<lparr>microsecond := 1\<rparr>))],
      sample_world\<lparr>draws := 1, ticks := 2\<rparr>) \<and>
   set_version4 0 = fst (uuid4 sample_world) \<and>
   sample_time\<lparr>microsecond := 0\<rparr> = clock sample_world (ticks sample_world) \<and>
   sample_time\<lparr>microsecond := 1\<rparr> = clock sample_world (ticks sample_world + 1) \<and>
   sample_world\<lparr>draws := 1, ticks := 2\<rparr> =
     sample_world\<lparr>draws := draws sample_world + 1, ticks := ticks sample_world + 2\<rparr>"
proof -
  let ?m = "[''code'' \<mapsto> PStr (str_of ''abc1234''), ''staff'' \<mapsto> PStr (str_of ''Ada'')]"
  let ?c = "[(''code'', PStr (str_of ''abc1234'')), (''staff'', PStr (str_of ''Ada'')),
             (''founding_date'', PNone)]"
  have t: "(DepartmentCreate, DepartmentUpdate, DepartmentRead) \<in>
           set [(DepartmentCreate, DepartmentUpdate, DepartmentRead),
                (LectureCreate, LectureUpdate, LectureRead)]"
    by simp
  have k: "''id'' \<in> {''id'', ''created_at'', ''updated_at''}" by simp
  have cr: "validate_model sample_engine DepartmentCreate ?m sample_world =
              (Inr ?c, sample_world)"
    using match_abc1234 by (simp add: create_code_staff)
  have rd: "validate_model sample_engine DepartmentRead (map_of ?c) sample_world =
     (Inr [(''code'', PStr (str_of ''abc1234'')), (''staff'', PStr (str_of ''Ada'')),
           (''founding_date'', PNone), (''id'', PUuid (set_version4 0)),
           (''created_at'', PDatetime (sample_time\<lparr>microsecond := 0\<rparr>)),
           (''updated_at'', PDatetime (sample_time\<lparr>microsecond := 1\<rparr>))],
      sample_world\<lparr>draws := 1, ticks := 2\<rparr>)"
    using match_abc1234
    by (simp add: validate_model_def validate_field_def schema_defs sample_engine_def
          uuid4_def utcnow_def sample_world_def)
  from read_fields_server_populated[OF t, of "''id''" sample_engine ?m "PUuid 5" sample_world] k cr rd
  show ?thesis
    by (auto simp: uuid4_def sample_world_def)
qed

text \<open>
  C4. The Lecture schemas are the Department schemas up to the renaming of \<open>staff\<close> to
  \<open>professor\<close> and of \<open>founding_date\<close> to \<open>start_date\<close>: for each variant (Base, Create,
  Update, Read) and every input object \<open>m\<close>, validating \<open>m\<close> against the Lecture variant
  gives the result of validating the renamed object against the Department variant,
  with the field names of the result renamed: success for success with equal field
  values, and error for error.
\<close>

theorem lecture_is_renamed_department:
  assumes "(D, Lc) \<in> set [(DepartmentBase, LectureBase), (DepartmentCreate, LectureCreate),
                         (DepartmentUpdate, LectureUpdate), (DepartmentRead, LectureRead)]"
    and "validate_model L D (m \<circ> lecture_name) w = (r, w')"
  shows "validate_model L Lc m w =
           (map_sum (rename_keys lecture_name) (rename_keys lecture_name) r, w')"
proof -
  have "list_all2 (same_field_as lecture_name) (model_fields Lc) (model_fields D)"
    using assms(1) by (auto simp: schema_defs same_field_as_def lecture_name_def)
  then show ?thesis
    using assms(2) unfolding comp_def by (rule validate_model_rename)
qed

theorem lecture_is_renamed_department_witness:
  "validate_model sample_engine DepartmentCreate
     ([''code'' \<mapsto> PStr (str_of ''abc1234''), ''professor'' \<mapsto> PStr (str_of ''Ada'')]
        \<circ> lecture_name) sample_world =
     (Inr [(''code'', PStr (str_of ''abc1234'')), (''staff'', PStr (str_of ''Ada'')),
           (''founding_date'', PNone)], sample_world) \<and>
   validate_model sample_engine LectureCreate
     [''code'' \<mapsto> PStr (str_of ''abc1234''), ''professor'' \<mapsto> PStr (str_of ''Ada'')]
     sample_world =
     (Inr [(''code'', PStr (str_of ''abc1234'')), (''professor'', PStr (str_of ''Ada'')),
           (''start_date'', PNone)], sample_world)"
proof -
  have d: "validate_model sample_engine DepartmentCreate
     ([''code'' \<mapsto> PStr (str_of ''abc1234''), ''professor'' \<mapsto> PStr (str_of ''Ada'')]
        \<circ> lecture_name) sample_world =
     (Inr [(''code'', PStr (str_of ''abc1234'')), (''staff'', PStr (str_of ''Ada'')),
           (''founding_date'', PNone)], sample_world)"
    using match_abc1234
    by (simp add: validate_model_def validate_field_def schema_defs lecture_name_def)
  have "(DepartmentCreate, LectureCreate) \<in>
        set [(DepartmentBase, LectureBase), (DepartmentCreate, LectureCreate),
             (DepartmentUpdate, LectureUpdate), (DepartmentRead, LectureRead)]"
    by simp
  from lecture_is_renamed_department[OF this d] d show ?thesis
    by (simp add: rename_keys_def lecture_name_def)
qed

text \<open>
  C5. Constructing a Department Update or a Lecture Update object with no field
  supplied succeeds, and every field of the object (\<open>code\<close>, \<open>staff\<close> or \<open>professor\<close>,
  \<open>founding_date\<close> or \<open>start_date\<close>) is \<open>None\<close>: the patch that changes nothing.
\<close>

theorem update_without_fields:
  "validate_model L DepartmentUpdate Map.empty w =
     (Inr [(''code'', PNone), (''staff'', PNone), (''founding_date'', PNone)], w) \<and>
   validate_model L LectureUpdate Map.empty w =
     (Inr [(''code'', PNone), (''professor'', PNone), (''start_date'', PNone)], w)"
  by (simp add: validate_model_def validate_field_def schema_defs)

text \<open>
  C6, as the specification states it: in an Update object every supplied field is
  checked against the same constraint as in Create. A supplied null is not: Update
  declares every field \<open>Optional\<close> and accepts \<open>None\<close> for \<open>code\<close>, which Create refuses
  with a string type error.
\<close>

theorem update_null_counterexample:
  "validate_model sample_engine DepartmentUpdate [''code'' \<mapsto> PNone] sample_world =
     (Inr [(''code'', PNone), (''staff'', PNone), (''founding_date'', PNone)], sample_world) \<and>
   validate_model sample_engine DepartmentCreate
     [''code'' \<mapsto> PNone, ''staff'' \<mapsto> PStr (str_of ''Ada'')] sample_world =
     (Inl [(''code'', StringType)], sample_world)"
  by (simp add: validate_model_def validate_field_def schema_defs)

text \<open>
  C6, amended. In an Update object every supplied value other than null is checked
  against the annotation the Create schema gives the field of that name, and a
  supplied null is accepted for every field; in particular, for every string \<open>s\<close>,
  constructing an Update object with \<open>s\<close> as \<open>code\<close> succeeds exactly when constructing
  a Create object with \<open>s\<close> as \<open>code\<close> and a string as \<open>staff\<close> (\<open>professor\<close>) succeeds.
\<close>

theorem update_fields_as_create:
  "((\<exists>obj. validate_model L DepartmentUpdate [''code'' \<mapsto> PStr s] w = (Inr obj, w)) \<longleftrightarrow>
    (\<exists>obj. validate_model L DepartmentCreate [''code'' \<mapsto> PStr s, ''staff'' \<mapsto> PStr t] w =
            (Inr obj, w))) \<and>
   ((\<exists>obj. validate_model L LectureUpdate [''code'' \<mapsto> PStr s] w = (Inr obj, w)) \<longleftrightarrow>
    (\<exists>obj. validate_model L LectureCreate [''code'' \<mapsto> PStr s, ''professor'' \<mapsto> PStr t] w =
            (Inr obj, w))) \<and>
   list_all2 (\<lambda>u c. fname u = fname c \<and>
                validate_type L (annotation u) PNone = Inr PNone \<and>
                (\<forall>v. v \<noteq> PNone \<longrightarrow>
                     validate_type L (annotation u) v = validate_type L (annotation c) v))
     (model_fields DepartmentUpdate) (model_fields DepartmentCreate) \<and>
   list_all2 (\<lambda>u c. fname u = fname c \<and>
                validate_type L (annotation u) PNone = Inr PNone \<and>
                (\<forall>v. v \<noteq> PNone \<longrightarrow>
                     validate_type L (annotation u) v = validate_type L (annotation c) v))
     (model_fields LectureUpdate) (model_fields LectureCreate)"
  by (simp add: create_code_staff update_code) (simp add: schema_defs)

theorem update_fields_as_create_witness:
  "validate_model sample_engine DepartmentUpdate [''code'' \<mapsto> PStr (str_of ''abc1234'')] sample_world =
     (Inr [(''code'', PStr (str_of ''abc1234'')), (''staff'', PNone),
           (''founding_date'', PNone)], sample_world) \<and>
   validate_model sample_engine DepartmentCreate
     [''code'' \<mapsto> PStr (str_of ''abc1234''), ''staff'' \<mapsto> PStr (str_of ''Ada'')] sample_world =
     (Inr [(''code'', PStr (str_of ''abc1234'')), (''staff'', PStr (str_of ''Ada'')),
           (''founding_date'', PNone)], sample_world) \<and>
   validate_model sample_engine LectureUpdate [''code'' \<mapsto> PStr (str_of ''ABC1234'')] sample_world =
     (Inl [(''code'', StringPatternMismatch)], sample_world) \<and>
   validate_model sample_engine LectureCreate
     [''code'' \<mapsto> PStr (str_of ''ABC1234''), ''professor'' \<mapsto> PStr (str_of ''Ada'')]
     sample_world =
     (Inl [(''code'', StringPatternMismatch)], sample_world) \<and>
   PStr (str_of ''Ada'') \<noteq> PNone \<and>
   validate_type sample_engine (TOptional (TStr None)) (PStr (str_of ''Ada'')) =
     validate_type sample_engine (TStr None) (PStr (str_of ''Ada''))"
  using update_fields_as_create[of sample_engine "str_of ''abc1234''" sample_world "str_of ''Ada''"]
        match_abc1234 no_match_upper
  by (simp add: create_code_staff update_code)

text \<open>
  C7. The Create schema is the Base schema: it declares the same fields with the same
  annotations and defaults, and on every input object validation against
  \<open>DepartmentCreate\<close> (\<open>LectureCreate\<close>) gives the result of validation against
  \<open>DepartmentBase\<close> (\<open>LectureBase\<close>): the same accepted object or the same errors.
\<close>

theorem create_same_as_base:
  "model_fields DepartmentCreate = model_fields DepartmentBase \<and>
   model_fields LectureCreate = model_fields LectureBase \<and>
   validate_model L DepartmentCreate m w = validate_model L DepartmentBase m w \<and>
   validate_model L LectureCreate m w = validate_model L LectureBase m w"
  by (simp add: validate_model_def DepartmentCreate_def LectureCreate_def)

text \<open>
  C9. Validation of Base, Create and Update payloads is deterministic and stateless:
  the outcome (the accepted object, or the list of failing fields with their errors)
  is a function of the input object alone, whatever the state of the clock and of the
  random source that earlier calls left behind, and the validation leaves that state
  as it found it.
\<close>

theorem validation_stateless:
  assumes "C \<in> set [DepartmentBase, DepartmentCreate, DepartmentUpdate,
                    LectureBase, LectureCreate, LectureUpdate]"
    and "validate_model L C m w1 = (r1, w1')" and "validate_model L C m w2 = (r2, w2')"
  shows "r1 = r2 \<and> w1' = w1 \<and> w2' = w2"
proof -
  have "factory_free (model_fields C)"
    using assms(1) by (auto simp: schema_defs factory_free_def)
  then show ?thesis
    using validate_model_pure[of C L m w1 w2] validate_model_pure[of C L m w2 w2] assms(2,3)
    by simp
qed

theorem validation_stateless_witness:
  "fst (validate_model sample_engine DepartmentCreate
          [''code'' \<mapsto> PStr (str_of ''abc1234''), ''staff'' \<mapsto> PStr (str_of ''Ada'')]
          sample_world) =
   fst (validate_model sample_engine DepartmentCreate
          [''code'' \<mapsto> PStr (str_of ''abc1234''), ''staff'' \<mapsto> PStr (str_of ''Ada'')]
          (sample_world\<lparr>draws := 3, ticks := 5\<rparr>)) \<and>
   snd (validate_model sample_engine DepartmentCreate
          [''code'' \<mapsto> PStr (str_of ''abc1234''), ''staff'' \<mapsto> PStr (str_of ''Ada'')]
          (sample_world\<lparr>draws := 3, ticks := 5\<rparr>)) = sample_world\<lparr>draws := 3, ticks := 5\<rparr>"
proof -
  let ?m = "[''code'' \<mapsto> PStr (str_of ''abc1234''), ''staff'' \<mapsto> PStr (str_of ''Ada'')]"
  let ?w = "sample_world\<lparr>draws := 3, ticks := 5\<rparr>"
  have c: "DepartmentCreate \<in> set [DepartmentBase, DepartmentCreate, DepartmentUpdate,
                    LectureBase, LectureCreate, LectureUpdate]"
    by simp
  have a: "validate_model sample_engine DepartmentCreate ?m sample_world =
           (fst (validate_model sample_engine DepartmentCreate ?m sample_world),
            snd (validate_model sample_engine DepartmentCreate ?m sample_world))"
    by simp
  have b: "validate_model sample_engine DepartmentCreate ?m ?w =
           (fst (validate_model sample_engine DepartmentCreate ?m ?w),
            snd (validate_model sample_engine DepartmentCreate ?m ?w))"
    by simp
  from validation_stateless[OF c a b] show ?thesis by simp
qed

text \<open>
  C10. Every schema variant (Base, Create, Update, Read, of Department and of Lecture)
  ignores unknown input fields: adding to the input a field whose name the schema
  does not declare changes neither the outcome nor the errors, and the constructed
  object does not hold the field.
\<close>

theorem unknown_fields_ignored:
  assumes "C \<in> set [DepartmentBase, DepartmentCreate, DepartmentUpdate, DepartmentRead,
                    LectureBase, LectureCreate, LectureUpdate, LectureRead]"
    and "k \<notin> set (map fname (model_fields C))"
  shows "validate_model L C (m(k \<mapsto> v)) w = validate_model L C m w \<and>
         (\<forall>obj w'. validate_model L C (m(k \<mapsto> v)) w = (Inr obj, w') \<longrightarrow>
                   k \<notin> set (map fst obj))"
proof -
  have a: "validate_fields L (model_fields C) (m(k \<mapsto> v)) w =
           validate_fields L (model_fields C) m w"
    using assms(2) by (intro validate_fields_ignore) simp
  have "k \<notin> set (map fst obj)"
    if "validate_model L C (m(k \<mapsto> v)) w = (Inr obj, w')" for obj w'
  proof -
    from that have "validate_fields L (model_fields C) (m(k \<mapsto> v)) w = ([], obj, w')"
      by (auto simp: validate_model_def split: prod.splits if_splits)
    then have "map fst obj = map fname (model_fields C)"
      by (rule validate_fields_keys_ok)
    then show ?thesis using assms(2) by simp
  qed
  then show ?thesis using a by (simp add: validate_model_def)
qed

text \<open>A misspelled field in an Update payload: the patch that changes nothing.\<close>

theorem unknown_fields_ignored_witness:
  "validate_model sample_engine LectureUpdate [''profesor'' \<mapsto> PStr (str_of ''Ada'')] sample_world =
     (Inr [(''code'', PNone), (''professor'', PNone), (''start_date'', PNone)], sample_world)"
proof -
  have c: "LectureUpdate \<in> set [DepartmentBase, DepartmentCreate, DepartmentUpdate,
             DepartmentRead, LectureBase, LectureCreate, LectureUpdate, LectureRead]"
    by simp
  have k: "''profesor'' \<notin> set (map fname (model_fields LectureUpdate))"
    by (simp add: schema_defs)
  have "validate_model sample_engine LectureUpdate Map.empty sample_world =
     (Inr [(''code'', PNone), (''professor'', PNone), (''start_date'', PNone)], sample_world)"
    by (simp add: validate_model_def validate_field_def schema_defs)
  with unknown_fields_ignored[OF c k, of sample_engine Map.empty "PStr (str_of ''Ada'')" sample_world]
  show ?thesis by simp
qed

end
